theory Spec2Isabelle
  imports Complex_Main "HOL-Library.Sublist"
begin

section \<open>Options chain analysis (chain\_analyzer.py)\<close>

text \<open>
  Python floats are modelled as reals and Python ints as integers. One row of the
  options DataFrame is a record of the columns the analyzer reads. The \<open>delta\<close> cell
  is optional: \<open>None\<close> stands for a frame without a \<open>delta\<close> column and for a NaN
  cell, the two cases in which the source leaves \<open>atm_delta\<close> unset. NaN cells in the
  other columns are outside the model.
\<close>

record contract =
  strike :: real
  volume :: int
  openInterest :: int
  impliedVolatility :: real
  delta :: "real option"

record TopVolumeStrike =
  tv_strike :: real
  tv_volume :: int
  tv_iv :: real

record TopOIStrike =
  to_strike :: real
  to_open_interest :: int
  to_iv :: real

record ChainAnalysis =
  total_contracts :: int
  liquid_contracts :: int
  total_volume :: int
  total_open_interest :: int
  avg_implied_volatility :: real
  max_iv :: real
  min_iv :: real
  atm_strike :: "real option"
  atm_iv :: "real option"
  atm_delta :: "real option"
  top_volume_strikes :: "TopVolumeStrike list"
  top_oi_strikes :: "TopOIStrike list"

definition TOP_STRIKES_LIMIT :: nat where
  "TOP_STRIKES_LIMIT = 5"

text \<open>\<open>options_df[options_df["volume"] >= min_volume]\<close>: the rows kept, in input order.\<close>

definition liquid_options :: "contract list \<Rightarrow> int \<Rightarrow> contract list" where
  "liquid_options options_df min_volume = filter (\<lambda>row. volume row \<ge> min_volume) options_df"

text \<open>
  \<open>Series.argsort()\<close> is the library's and is a parameter \<open>argsort\<close> of the
  analysis: it returns the positions of the values in an order that sorts them
  ascending. Its default sort kind is quicksort, which is not stable, so the order
  it gives to the positions of equal values is the library's choice. \<open>is_argsort\<close>
  is what the library promises of the positions \<open>idx\<close> returned for \<open>vs\<close>.
\<close>

definition is_argsort :: "real list \<Rightarrow> nat list \<Rightarrow> bool" where
  "is_argsort vs idx = (sort idx = [0..<length vs] \<and> sorted (map (\<lambda>i. vs ! i) idx))"

text \<open>
  Two orders that keep this promise: \<open>stable_argsort\<close> leaves equal values in
  input order, \<open>unstable_argsort\<close> puts the later of two equal values first.
\<close>

definition stable_argsort :: "real list \<Rightarrow> nat list" where
  "stable_argsort vs = map snd (sort_key fst (zip vs [0..<length vs]))"

definition unstable_argsort :: "real list \<Rightarrow> nat list" where
  "unstable_argsort vs = map snd (sort_key fst (rev (zip vs [0..<length vs])))"

text \<open>
  \<open>distance = (liquid["strike"] - current_price).abs()\<close>,
  \<open>atm_idx = distance.argsort().iloc[:1]\<close>, \<open>atm_row = liquid.iloc[atm_idx]\<close>.
  The positions an argsort returns are positions of the frame, so \<open>iloc\<close> does not
  raise.
\<close>

definition atm_row :: "(real list \<Rightarrow> nat list) \<Rightarrow> contract list \<Rightarrow> real \<Rightarrow> contract list" where
  "atm_row argsort liquid current_price =
     (let distance = map (\<lambda>row. \<bar>strike row - current_price\<bar>) liquid;
          atm_idx = take 1 (argsort distance)
      in map (\<lambda>i. liquid ! i) atm_idx)"

text \<open>
  \<open>DataFrame.nlargest(n, column)\<close> with the default \<open>keep='first'\<close>: the first
  \<open>n\<close> rows of the frame sorted descending by the column, rows with equal values in
  their original order.
\<close>

definition nlargest :: "nat \<Rightarrow> (contract \<Rightarrow> int) \<Rightarrow> contract list \<Rightarrow> contract list" where
  "nlargest n column df = take n (sort_key (\<lambda>row. - column row) df)"

definition volume_strike :: "contract \<Rightarrow> TopVolumeStrike" where
  "volume_strike row =
     \<lparr>tv_strike = strike row, tv_volume = volume row, tv_iv = impliedVolatility row * 100\<rparr>"

definition oi_strike :: "contract \<Rightarrow> TopOIStrike" where
  "oi_strike row =
     \<lparr>to_strike = strike row, to_open_interest = openInterest row,
      to_iv = impliedVolatility row * 100\<rparr>"

definition top_by_volume :: "contract list \<Rightarrow> TopVolumeStrike list" where
  "top_by_volume liquid =
     (if liquid = [] then []
      else map volume_strike (nlargest TOP_STRIKES_LIMIT volume liquid))"

definition top_by_oi :: "contract list \<Rightarrow> TopOIStrike list" where
  "top_by_oi liquid =
     (if liquid = [] then []
      else map oi_strike (nlargest TOP_STRIKES_LIMIT openInterest liquid))"

text \<open>
  \<open>ChainAnalyzer.analyze_chain\<close>. The \<open>chain_type\<close> argument only feeds the log line
  and is left out. \<open>None\<close> is the source's \<open>return None\<close> for an empty frame.
\<close>

definition analyze_chain ::
  "(real list \<Rightarrow> nat list) \<Rightarrow> contract list \<Rightarrow> real \<Rightarrow> int \<Rightarrow> ChainAnalysis option" where
  "analyze_chain argsort options_df current_price min_volume =
     (if options_df = [] then None
      else
        let liquid = liquid_options options_df min_volume;
            ivs = map impliedVolatility options_df;
            atm = (if liquid \<noteq> [] then atm_row argsort liquid current_price else [])
        in Some
          \<lparr>total_contracts = int (length options_df),
           liquid_contracts = int (length liquid),
           total_volume = sum_list (map volume options_df),
           total_open_interest = sum_list (map openInterest options_df),
           avg_implied_volatility = (sum_list ivs / real (length ivs)) * 100,
           max_iv = Max (set ivs) * 100,
           min_iv = Min (set ivs) * 100,
           atm_strike = (case atm of [] \<Rightarrow> None | r # _ \<Rightarrow> Some (strike r)),
           atm_iv = (case atm of [] \<Rightarrow> None | r # _ \<Rightarrow> Some (impliedVolatility r * 100)),
           atm_delta = (case atm of [] \<Rightarrow> None | r # _ \<Rightarrow> delta r),
           top_volume_strikes = top_by_volume liquid,
           top_oi_strikes = top_by_oi liquid\<rparr>)"

text \<open>The fixture \<open>sample_options_df\<close> of tests/test\_options\_analysis.py.\<close>

definition sample_options_df :: "contract list" where
  "sample_options_df =
     [\<lparr>strike = 95, volume = 50, openInterest = 1000, impliedVolatility = 45/100, delta = None\<rparr>,
      \<lparr>strike = 100, volume = 200, openInterest = 5000, impliedVolatility = 35/100, delta = None\<rparr>,
      \<lparr>strike = 105, volume = 500, openInterest = 8000, impliedVolatility = 30/100, delta = None\<rparr>,
      \<lparr>strike = 110, volume = 150, openInterest = 3000, impliedVolatility = 32/100, delta = None\<rparr>,
      \<lparr>strike = 115, volume = 30, openInterest = 500, impliedVolatility = 40/100, delta = None\<rparr>]"

text \<open>
  A chain of four liquid rows in which the strikes 101 and 99 are equally far from
  the price 100.
\<close>

definition tie_chain :: "contract list" where
  "tie_chain =
     [\<lparr>strike = 103, volume = 100, openInterest = 1000, impliedVolatility = 30/100, delta = None\<rparr>,
      \<lparr>strike = 102, volume = 100, openInterest = 1000, impliedVolatility = 30/100, delta = None\<rparr>,
      \<lparr>strike = 101, volume = 100, openInterest = 1000, impliedVolatility = 30/100, delta = None\<rparr>,
      \<lparr>strike = 99, volume = 100, openInterest = 1000, impliedVolatility = 30/100, delta = None\<rparr>]"

section \<open>Expiration selection (chain\_analyzer.py)\<close>

datatype py_error =
  IndexError | ValueError string | ZeroDivisionError | OptionsDataError string string

definition DEFAULT_MIN_DTE :: int where
  "DEFAULT_MIN_DTE = 7"

text \<open>
  The loop of \<open>select_expiration\<close>. The two library calls are parameters:
  \<open>strptime e\<close> is the day number of the date that
  \<open>datetime.strptime(e, "%Y-%m-%d").date()\<close> returns, or \<open>None\<close> where it raises
  \<open>ValueError\<close> (the source then continues with the next entry), and \<open>today\<close> is
  the day number of \<open>datetime.now().date()\<close>; the difference of two day numbers is
  \<open>(exp_date - today).days\<close>.
\<close>

fun scan_expirations :: "(string \<Rightarrow> int option) \<Rightarrow> int \<Rightarrow> int \<Rightarrow> string list \<Rightarrow> string option"
  where
  "scan_expirations strptime today min_dte [] = None"
| "scan_expirations strptime today min_dte (e # rest) =
     (case strptime e of
        None \<Rightarrow> scan_expirations strptime today min_dte rest
      | Some exp_date \<Rightarrow>
          (let dte = exp_date - today
           in if dte \<ge> min_dte then Some e
              else scan_expirations strptime today min_dte rest))"

text \<open>
  After the loop the source returns \<open>expirations[-1]\<close>, which raises \<open>IndexError\<close>
  on an empty tuple.
\<close>

definition auto_select :: "(string \<Rightarrow> int option) \<Rightarrow> int \<Rightarrow> string list \<Rightarrow> int \<Rightarrow> py_error + string"
  where
  "auto_select strptime today expirations min_dte =
     (case scan_expirations strptime today min_dte expirations of
        Some e \<Rightarrow> Inr e
      | None \<Rightarrow> if expirations = [] then Inl IndexError else Inr (last expirations))"

text \<open>
  \<open>ChainAnalyzer.select_expiration\<close> (the \<open>symbol\<close> argument only feeds the log).
  \<open>if requested and requested in expirations\<close>: Python takes \<open>None\<close> and the empty
  string as false.
\<close>

definition select_expiration ::
  "(string \<Rightarrow> int option) \<Rightarrow> int \<Rightarrow> string list \<Rightarrow> string option \<Rightarrow> int \<Rightarrow> py_error + string"
  where
  "select_expiration strptime today expirations requested min_dte =
     (case requested of
        None \<Rightarrow> auto_select strptime today expirations min_dte
      | Some r \<Rightarrow>
          if r \<noteq> [] \<and> r \<in> set expirations then Inr r
          else auto_select strptime today expirations min_dte)"

text \<open>An expiration meets the floor when it parses and lies at least \<open>min_dte\<close> days ahead.\<close>

definition meets_floor :: "(string \<Rightarrow> int option) \<Rightarrow> int \<Rightarrow> int \<Rightarrow> string \<Rightarrow> bool" where
  "meets_floor strptime today min_dte e =
     (case strptime e of None \<Rightarrow> False | Some exp_date \<Rightarrow> exp_date - today \<ge> min_dte)"

text \<open>
  The calendar of property 5 of the specification: today is day 0, \<open>2025-01-10\<close> is
  3 days ahead and \<open>2025-02-07\<close> is 31 days ahead; nothing else parses.
\<close>

definition sample_calendar :: "string \<Rightarrow> int option" where
  "sample_calendar e =
     (if e = ''2025-01-10'' then Some 3 else if e = ''2025-02-07'' then Some 31 else None)"

section \<open>Put/call ratio (server.py)\<close>

record PutCallRatio =
  pcr_volume :: "real option"
  pcr_open_interest :: "real option"

text \<open>
  \<open>_compute_pcr\<close>. A \<open>ChainAnalysis\<close> object is always true in Python, so
  \<open>not calls\<close> holds exactly when \<open>calls\<close> is \<open>None\<close>. \<open>/\<close> on two ints is true
  division.
\<close>

definition compute_pcr :: "ChainAnalysis option \<Rightarrow> ChainAnalysis option \<Rightarrow> PutCallRatio option"
  where
  "compute_pcr calls puts =
     (case calls of
        None \<Rightarrow> None
      | Some c \<Rightarrow>
          (case puts of
             None \<Rightarrow> None
           | Some p \<Rightarrow>
               Some \<lparr>pcr_volume =
                       (if total_volume c > 0
                        then Some (real_of_int (total_volume p) / real_of_int (total_volume c))
                        else None),
                     pcr_open_interest =
                       (if total_open_interest c > 0
                        then Some (real_of_int (total_open_interest p)
                                   / real_of_int (total_open_interest c))
                        else None)\<rparr>))"

text \<open>A bare analysis with the given totals, as the fixtures of the tests build them.\<close>

definition bare_analysis :: "int \<Rightarrow> int \<Rightarrow> int \<Rightarrow> int \<Rightarrow> real \<Rightarrow> ChainAnalysis" where
  "bare_analysis n liquid vol oi iv =
     \<lparr>total_contracts = n, liquid_contracts = liquid, total_volume = vol,
      total_open_interest = oi, avg_implied_volatility = iv, max_iv = iv, min_iv = iv,
      atm_strike = None, atm_iv = None, atm_delta = None,
      top_volume_strikes = [], top_oi_strikes = []\<rparr>"

section \<open>Printing numbers\<close>





text \<open>
  How Python prints a float is a parameter of the functions that build messages:
  \<open>fixed F n x\<close> is \<open>format(x, ".nf")\<close> and \<open>float_str F x\<close> is \<open>str(x)\<close>.
  The format \<open>".n%"\<close> prints \<open>100 * x\<close> with \<open>n\<close> decimals and a percent sign.
\<close>

record py_format =
  fixed :: "nat \<Rightarrow> real \<Rightarrow> string"
  float_str :: "real \<Rightarrow> string"


text \<open>
  Python's \<open>round(x, n)\<close> acts on the float and is a parameter \<open>rnd\<close> of the
  functions that report rounded values. \<open>py_round\<close> is one instance, used to run
  the functions on examples: the real rounded to \<open>n\<close> decimals, ties to even. The
  float of a real that lies at a tie may lie on either side of it, so the examples
  stay away from ties.
\<close>

definition round_half_even :: "real \<Rightarrow> int" where
  "round_half_even x =
     (let f = \<lfloor>x\<rfloor>; d = x - of_int f
      in if d < 1/2 then f else if d > 1/2 then f + 1 else if even f then f else f + 1)"

definition py_round :: "real \<Rightarrow> nat \<Rightarrow> real" where
  "py_round x n = of_int (round_half_even (x * 10 ^ n)) / 10 ^ n"



section \<open>Vehicle selection (vehicle\_selector.py, config.py, models.py)\<close>












section \<open>Risk assessment (risk\_engine.py, config.py)\<close>

definition IV_HIGH_THRESHOLD :: real where "IV_HIGH_THRESHOLD = 60.0"
definition IV_LOW_THRESHOLD :: real where "IV_LOW_THRESHOLD = 20.0"

text \<open>
  The two lists that \<open>assess\<close> creates and every check appends to: warnings first,
  opportunities second.
\<close>

type_synonym findings = "string list \<times> string list"

definition warn :: "string \<Rightarrow> findings \<Rightarrow> findings" where
  "warn m s = (fst s @ [m], snd s)"

definition opportunity :: "string \<Rightarrow> findings \<Rightarrow> findings" where
  "opportunity m s = (fst s, snd s @ [m])"

text \<open>The f-strings of the checks, in the order of the source.\<close>

definition high_iv_message :: "py_format \<Rightarrow> real \<Rightarrow> string" where
  "high_iv_message F avg_iv =
     ''High implied volatility ('' @ fixed F 1 avg_iv
     @ ''%) - options are expensive, consider selling strategies or spreads''"

definition low_iv_message :: "py_format \<Rightarrow> real \<Rightarrow> string" where
  "low_iv_message F avg_iv =
     ''Low implied volatility ('' @ fixed F 1 avg_iv
     @ ''%) - options are cheap, consider buying strategies''"










text \<open>\<open>primary = calls or puts\<close>.\<close>

definition primary_side :: "ChainAnalysis option \<Rightarrow> ChainAnalysis option \<Rightarrow> ChainAnalysis option"
  where
  "primary_side calls puts = (case calls of Some c \<Rightarrow> Some c | None \<Rightarrow> puts)"

definition assess_iv ::
  "py_format \<Rightarrow> ChainAnalysis option \<Rightarrow> ChainAnalysis option \<Rightarrow> findings \<Rightarrow> findings" where
  "assess_iv F calls puts s =
     (case primary_side calls puts of
        None \<Rightarrow> s
      | Some primary \<Rightarrow>
          (let avg_iv = avg_implied_volatility primary
           in if avg_iv > IV_HIGH_THRESHOLD then warn (high_iv_message F avg_iv) s
              else if avg_iv < IV_LOW_THRESHOLD then opportunity (low_iv_message F avg_iv) s
              else s))"











text \<open>A check keeps what the lists hold.\<close>

definition keeps :: "findings \<Rightarrow> findings \<Rightarrow> bool" where
  "keeps s t = (set (fst s) \<subseteq> set (fst t) \<and> set (snd s) \<subseteq> set (snd t))"






section \<open>Spread evaluation (\_analyze\_spread\_trade in main.py)\<close>

text \<open>
  The part of \<open>_analyze_spread_trade\<close> after the two contracts are found. A leg is
  the row dict of its contract; of it the metrics read the quotes. \<open>None\<close> stands for
  a missing key and for a \<open>None\<close> value, which \<open>leg.get(key, 0) or 0\<close> both turn
  into 0. The spread type is the request's, already lower-cased.
\<close>

record leg =
  bid :: "real option"
  ask :: "real option"

definition or0 :: "real option \<Rightarrow> real" where
  "or0 v = (case v of None \<Rightarrow> 0 | Some x \<Rightarrow> x)"

definition is_credit_spread :: "string \<Rightarrow> bool" where
  "is_credit_spread stype = (stype \<in> set [''bull_put_credit'', ''bear_call_credit''])"

text \<open>The choice of the chain; an unknown spread type raises \<open>ValueError\<close>.\<close>

definition chain_label :: "string \<Rightarrow> py_error + string" where
  "chain_label stype =
     (if stype \<in> set [''bull_call'', ''bear_call_credit''] then Inr ''calls''
      else if stype \<in> set [''bear_put'', ''bull_put_credit''] then Inr ''puts''
      else if stype \<in> set [''iron_condor'', ''straddle'', ''strangle''] then Inr ''both''
      else Inl (ValueError
        (''Unknown spread type: '' @ stype
         @ ''. Use: bull_call, bear_put, bull_put_credit, bear_call_credit, ''
         @ ''iron_condor, straddle, strangle'')))"

text \<open>
  The local variables of lines 594 to 613. \<open>net_amount\<close> is \<open>net_premium\<close> in the
  credit branch and \<open>net_debit\<close> in the debit branch.
\<close>

record spread_locals =
  spread_width :: real
  net_amount :: real
  max_profit :: real
  max_loss :: real
  breakeven :: real

definition spread_metrics :: "string \<Rightarrow> real \<Rightarrow> real \<Rightarrow> int \<Rightarrow> leg \<Rightarrow> leg \<Rightarrow> spread_locals"
  where
  "spread_metrics stype buy_strike sell_strike contracts buy_leg sell_leg =
     (let width = \<bar>sell_strike - buy_strike\<bar>
      in if is_credit_spread stype then
           (let net_premium = or0 (bid sell_leg) - or0 (ask buy_leg)
            in \<lparr>spread_width = width,
                net_amount = net_premium,
                max_profit = net_premium * 100 * real_of_int contracts,
                max_loss = (width - net_premium) * 100 * real_of_int contracts,
                breakeven = (if sublist ''put'' stype then sell_strike - net_premium
                             else sell_strike + net_premium)\<rparr>)
         else
           (let net_debit = or0 (ask buy_leg) - or0 (bid sell_leg)
            in \<lparr>spread_width = width,
                net_amount = net_debit,
                max_profit = (width - net_debit) * 100 * real_of_int contracts,
                max_loss = net_debit * 100 * real_of_int contracts,
                breakeven = (if sublist ''call'' stype then buy_strike + net_debit
                             else buy_strike - net_debit)\<rparr>))"

text \<open>Python's \<open>/\<close> on floats raises \<open>ZeroDivisionError\<close> on a zero divisor.\<close>

definition py_div :: "real \<Rightarrow> real \<Rightarrow> py_error + real" where
  "py_div x y = (if y = 0 then Inl ZeroDivisionError else Inr (x / y))"

text \<open>
  \<open>round((pnl_per_spread / request.entry_price) * 100, 2)
  if request.entry_price != 0 else 0\<close>.
\<close>

definition pnl_percent_of :: "(real \<Rightarrow> nat \<Rightarrow> real) \<Rightarrow> real \<Rightarrow> real \<Rightarrow> py_error + real" where
  "pnl_percent_of rnd pnl e =
     (if e \<noteq> 0
      then (case py_div pnl e of Inl err \<Rightarrow> Inl err | Inr q \<Rightarrow> Inr (rnd (q * 100) 2))
      else Inr 0)"

text \<open>
  The \<open>close_analysis\<close> entry of the result (lines 661 to 687); \<open>Inr None\<close> when
  the entry is not made.
\<close>

record close_analysis =
  entry_price :: real
  current_value :: real
  pnl_per_spread :: real
  total_pnl :: real
  pnl_percent :: real

definition close_analysis_of ::
  "(real \<Rightarrow> nat \<Rightarrow> real) \<Rightarrow> string \<Rightarrow> int \<Rightarrow> leg \<Rightarrow> leg \<Rightarrow> string \<Rightarrow> real option
   \<Rightarrow> py_error + close_analysis option" where
  "close_analysis_of rnd stype contracts buy_leg sell_leg action entry =
     (case entry of
        None \<Rightarrow> Inr None
      | Some e \<Rightarrow>
          if action \<noteq> ''close'' then Inr None
          else
            (let current = (if is_credit_spread stype
                            then or0 (ask sell_leg) - or0 (bid buy_leg)
                            else or0 (bid buy_leg) - or0 (ask sell_leg));
                 pnl = (if is_credit_spread stype then e - current else current - e)
             in case pnl_percent_of rnd pnl e of
                  Inl err \<Rightarrow> Inl err
                | Inr pct \<Rightarrow>
                    Inr (Some
                      \<lparr>entry_price = e,
                       current_value = rnd current 2,
                       pnl_per_spread = rnd pnl 2,
                       total_pnl = rnd (pnl * 100 * real_of_int contracts) 2,
                       pnl_percent = pct\<rparr>)))"

text \<open>\<open>abs(max_profit / max_loss) if max_loss != 0 else 0\<close>.\<close>

definition rr_ratio_of :: "real \<Rightarrow> real \<Rightarrow> py_error + real" where
  "rr_ratio_of profit loss =
     (if loss \<noteq> 0
      then (case py_div profit loss of Inl err \<Rightarrow> Inl err | Inr q \<Rightarrow> Inr \<bar>q\<bar>)
      else Inr 0)"

text \<open>The metric entries of the result dict.\<close>

record spread_report =
  r_spread_width :: real
  r_is_credit :: bool
  r_max_profit :: real
  r_max_loss :: real
  r_risk_reward_ratio :: real
  r_breakeven :: real
  r_close_analysis :: "close_analysis option"

definition analyze_spread_trade ::
  "(real \<Rightarrow> nat \<Rightarrow> real) \<Rightarrow> string \<Rightarrow> real \<Rightarrow> real \<Rightarrow> int \<Rightarrow> string \<Rightarrow> real option
   \<Rightarrow> leg \<Rightarrow> leg \<Rightarrow> py_error + spread_report"
  where
  "analyze_spread_trade rnd stype buy_strike sell_strike contracts action entry buy_leg sell_leg =
     (case chain_label stype of
        Inl err \<Rightarrow> Inl err
      | Inr opt_label \<Rightarrow>
          (let m = spread_metrics stype buy_strike sell_strike contracts buy_leg sell_leg
           in case rr_ratio_of (max_profit m) (max_loss m) of
                Inl err \<Rightarrow> Inl err
              | Inr rr_ratio \<Rightarrow>
                  (case close_analysis_of rnd stype contracts buy_leg sell_leg action entry of
                     Inl err \<Rightarrow> Inl err
                   | Inr closing \<Rightarrow>
                       Inr
                         \<lparr>r_spread_width = rnd (spread_width m) 2,
                          r_is_credit = is_credit_spread stype,
                          r_max_profit = rnd (max_profit m) 2,
                          r_max_loss = rnd \<bar>max_loss m\<bar> 2,
                          r_risk_reward_ratio = rnd rr_ratio 2,
                          r_breakeven = rnd (breakeven m) 2,
                          r_close_analysis = closing\<rparr>)))"

text \<open>
  \<open>_find_contract\<close>, the nearest-strike lookup of the legs. \<open>Series.idxmin()\<close>
  returns the label of the first occurrence of the minimum, which on the default index
  of a chain frame is its position.
\<close>

definition idxmin :: "real list \<Rightarrow> nat" where
  "idxmin vs = length (takeWhile (\<lambda>v. v \<noteq> Min (set vs)) vs)"

definition find_contract :: "contract list \<Rightarrow> real \<Rightarrow> string \<Rightarrow> string \<Rightarrow> py_error + contract"
  where
  "find_contract chain_df target symbol leg_name =
     (if chain_df = []
      then Inl (OptionsDataError symbol (''No options data for '' @ leg_name @ '' leg''))
      else
        (let distance = map (\<lambda>row. \<bar>strike row - target\<bar>) chain_df;
             idx = idxmin distance
         in Inr (chain_df ! idx)))"

text \<open>
  The quotes of property 8 of the specification: the short leg bid at 2.00, the long
  leg asked at 0.80.
\<close>

definition long_leg :: leg where
  "long_leg = \<lparr>bid = Some (70/100), ask = Some (80/100)\<rparr>"

definition short_leg :: leg where
  "short_leg = \<lparr>bid = Some 2, ask = Some (210/100)\<rparr>"

section \<open>Properties of the chain analysis\<close>

text \<open>
  Claim C4. On an empty chain \<open>analyze_chain\<close> returns the absent marker \<open>None\<close>,
  for every price and every volume threshold; it never returns an analysis record,
  zero-valued or otherwise.
\<close>

theorem analyze_chain_empty_absent:
  "analyze_chain argsort [] current_price min_volume = None"
  by (simp add: analyze_chain_def)

subsection \<open>The rows of largest volume and open interest\<close>





subsection \<open>Counts and the top-N lists\<close>



subsection \<open>Aggregates over all rows\<close>

text \<open>
  Claim C10. For a non-empty chain and any two volume thresholds both analyses exist
  and agree on \<open>total_contracts\<close>, \<open>total_volume\<close>, \<open>total_open_interest\<close> and the
  average, maximum and minimum implied volatility; these are the row count, the column
  sums, and the mean, maximum and minimum of the implied volatility of all input
  rows, liquid or not, times 100. The remaining fields are those computed from the
  liquid subset.
\<close>

theorem analyze_chain_min_volume_independent:
  assumes "rows \<noteq> []"
  shows "\<exists>a1 a2. analyze_chain argsort rows p mv1 = Some a1 \<and> analyze_chain argsort rows p mv2 = Some a2
     \<and> total_contracts a1 = total_contracts a2 \<and> total_volume a1 = total_volume a2
     \<and> total_open_interest a1 = total_open_interest a2
     \<and> avg_implied_volatility a1 = avg_implied_volatility a2
     \<and> max_iv a1 = max_iv a2 \<and> min_iv a1 = min_iv a2
     \<and> total_contracts a1 = int (length rows)
     \<and> total_volume a1 = sum_list (map volume rows)
     \<and> total_open_interest a1 = sum_list (map openInterest rows)
     \<and> avg_implied_volatility a1
         = sum_list (map impliedVolatility rows) / real (length rows) * 100
     \<and> max_iv a1 = Max (impliedVolatility ` set rows) * 100
     \<and> min_iv a1 = Min (impliedVolatility ` set rows) * 100
     \<and> a2 = a1\<lparr>liquid_contracts := liquid_contracts a2, atm_strike := atm_strike a2,
               atm_iv := atm_iv a2, atm_delta := atm_delta a2,
               top_volume_strikes := top_volume_strikes a2,
               top_oi_strikes := top_oi_strikes a2\<rparr>"
  using assms by (simp add: analyze_chain_def Let_def)

theorem analyze_chain_min_volume_independent_witness:
  "sample_options_df \<noteq> []
   \<and> map_option liquid_contracts (analyze_chain stable_argsort sample_options_df 100 75) = Some 3
   \<and> map_option liquid_contracts (analyze_chain stable_argsort sample_options_df 100 1) = Some 5
   \<and> (\<exists>a1 a2. analyze_chain stable_argsort sample_options_df 100 75 = Some a1
         \<and> analyze_chain stable_argsort sample_options_df 100 1 = Some a2
         \<and> total_contracts a1 = total_contracts a2 \<and> total_volume a1 = total_volume a2
         \<and> total_open_interest a1 = total_open_interest a2
         \<and> avg_implied_volatility a1 = avg_implied_volatility a2
         \<and> max_iv a1 = max_iv a2 \<and> min_iv a1 = min_iv a2)"
proof -
  have h: "sample_options_df \<noteq> []" by (simp add: sample_options_df_def)
  have e1: "map_option liquid_contracts (analyze_chain stable_argsort sample_options_df 100 75) = Some 3"
    by (simp add: analyze_chain_def sample_options_df_def liquid_options_def Let_def)
  have e2: "map_option liquid_contracts (analyze_chain stable_argsort sample_options_df 100 1) = Some 5"
    by (simp add: analyze_chain_def sample_options_df_def liquid_options_def Let_def)
  from analyze_chain_min_volume_independent[OF h, where argsort = stable_argsort and p = 100 and ?mv1.0 = 75 and ?mv2.0 = 1] h e1 e2 show ?thesis by blast
qed

subsection \<open>The at-the-money row\<close>

text \<open>
  What holds for every order the library may return: the head of an argsort is a
  position of minimal value, so the ATM row is a liquid row of minimal distance; and
  without liquid rows the three ATM fields stay unset.
\<close>

lemma is_argsort_head:
  assumes "vs \<noteq> []" "is_argsort vs idx"
  shows "\<exists>i<length vs. take 1 idx = [i] \<and> (\<forall>j<length vs. vs ! i \<le> vs ! j)"
proof -
  from assms(2) have srt: "sort idx = [0..<length vs]"
    and asc: "sorted (map (\<lambda>i. vs ! i) idx)"
    by (simp_all add: is_argsort_def)
  have st: "set idx = {0..<length vs}" by (metis srt set_sort set_upt)
  have "length idx = length vs" by (metis srt length_sort length_upt diff_zero)
  with assms(1) obtain i rest where idx: "idx = i # rest" by (cases idx) auto
  have il: "i < length vs" using st idx by auto
  have "\<forall>j<length vs. vs ! i \<le> vs ! j"
  proof (intro allI impI)
    fix j assume "j < length vs"
    then have "j \<in> set idx" using st by simp
    then show "vs ! i \<le> vs ! j" using asc idx by auto
  qed
  with il idx show ?thesis by simp
qed

lemma analyze_chain_atm_minimal:
  assumes "liquid_options rows mv \<noteq> []"
    and "is_argsort (map (\<lambda>row. \<bar>strike row - p\<bar>) (liquid_options rows mv))
           (argsort (map (\<lambda>row. \<bar>strike row - p\<bar>) (liquid_options rows mv)))"
  shows "\<exists>a i. analyze_chain argsort rows p mv = Some a \<and> i < length (liquid_options rows mv)
     \<and> atm_strike a = Some (strike (liquid_options rows mv ! i))
     \<and> (\<forall>j<length (liquid_options rows mv).
           \<bar>strike (liquid_options rows mv ! i) - p\<bar> \<le> \<bar>strike (liquid_options rows mv ! j) - p\<bar>)"
proof -
  let ?L = "liquid_options rows mv"
  let ?d = "map (\<lambda>row. \<bar>strike row - p\<bar>) ?L"
  from assms(1) have dne: "?d \<noteq> []" by simp
  from assms(1) have rne: "rows \<noteq> []" by (auto simp: liquid_options_def)
  from is_argsort_head[OF dne assms(2)] obtain i where i: "i < length ?d"
    "take 1 (argsort ?d) = [i]" "\<forall>j<length ?d. ?d ! i \<le> ?d ! j" by blast
  have il: "i < length ?L" using i(1) by simp
  have row: "atm_row argsort ?L p = [?L ! i]" using i(2) by (simp add: atm_row_def)
  obtain a where a: "analyze_chain argsort rows p mv = Some a"
    using rne by (simp add: analyze_chain_def Let_def)
  have s: "atm_strike a = Some (strike (?L ! i))"
    using a rne assms(1) row by (auto simp: analyze_chain_def Let_def)
  have m: "\<forall>j<length ?L. \<bar>strike (?L ! i) - p\<bar> \<le> \<bar>strike (?L ! j) - p\<bar>"
    using i(3) il by simp
  from a il s m show ?thesis by blast
qed

lemma analyze_chain_atm_unset:
  assumes "rows \<noteq> []" "liquid_options rows mv = []"
  shows "\<exists>a. analyze_chain argsort rows p mv = Some a \<and> atm_strike a = None
     \<and> atm_iv a = None \<and> atm_delta a = None"
  using assms by (simp add: analyze_chain_def Let_def)

text \<open>
  Claim C3 asks for more: among liquid rows at the same least distance the first in
  input order is to give the ATM strike, as \<open>idxmin\<close> does in \<open>_find_contract\<close>.
  \<open>analyze_chain\<close> takes the head of an argsort instead, and an unstable sort may
  put the later row first. In \<open>tie_chain\<close> all four rows are liquid at the
  threshold 75 and the distances to the price 100 are 3, 2, 1, 1; the positions
  3, 2, 1, 0 sort them, and with them the analysis reports the strike 99, the later of
  the two nearest rows, where the claim and \<open>_find_contract\<close> give 101.
\<close>

theorem analyze_chain_atm_tie:
  "liquid_options tie_chain 75 = tie_chain
   \<and> map (\<lambda>row. \<bar>strike row - 100\<bar>) tie_chain = [3, 2, 1, 1]
   \<and> unstable_argsort [3, 2, 1, 1] = [3, 2, 1, 0]
   \<and> is_argsort [3, 2, 1, 1] (unstable_argsort [3, 2, 1, 1])
   \<and> map_option atm_strike (analyze_chain unstable_argsort tie_chain 100 75) = Some (Some 99)
   \<and> find_contract tie_chain 100 ''SYM'' ''buy'' = Inr (tie_chain ! 2)
   \<and> strike (tie_chain ! 2) = 101"
  by (simp add: analyze_chain_def tie_chain_def liquid_options_def atm_row_def
      unstable_argsort_def is_argsort_def find_contract_def idxmin_def Let_def)

section \<open>Properties of the expiration selection\<close>

lemma scan_expirations_find:
  "scan_expirations sp t m es = find (meets_floor sp t m) es"
  by (induction es) (auto simp: meets_floor_def Let_def split: option.splits)

text \<open>
  Claim C2. For a non-empty sequence of expirations: a requested date (a non-empty
  string, the only kind Python's truth test lets through) that occurs in the sequence
  is returned as it is, whatever its days to expiration; otherwise the result is the
  first entry, in the given order, that parses and lies at least \<open>min_dte\<close> days after
  today; and when no entry does, the result is the last entry, not an error.
\<close>

theorem select_expiration_policy:
  assumes "expirations \<noteq> []"
  shows "(\<forall>r. requested = Some r \<and> r \<noteq> [] \<and> r \<in> set expirations \<longrightarrow>
            select_expiration strptime today expirations requested min_dte = Inr r)
    \<and> (\<not> (\<exists>r. requested = Some r \<and> r \<noteq> [] \<and> r \<in> set expirations) \<longrightarrow>
         (\<forall>i<length expirations.
             meets_floor strptime today min_dte (expirations ! i)
             \<and> (\<forall>j<i. \<not> meets_floor strptime today min_dte (expirations ! j)) \<longrightarrow>
             select_expiration strptime today expirations requested min_dte
               = Inr (expirations ! i))
         \<and> ((\<forall>e\<in>set expirations. \<not> meets_floor strptime today min_dte e) \<longrightarrow>
             select_expiration strptime today expirations requested min_dte
               = Inr (last expirations)))"
proof (intro conjI allI impI)
  fix r assume "requested = Some r \<and> r \<noteq> [] \<and> r \<in> set expirations"
  then show "select_expiration strptime today expirations requested min_dte = Inr r"
    by (simp add: select_expiration_def)
next
  assume n: "\<not> (\<exists>r. requested = Some r \<and> r \<noteq> [] \<and> r \<in> set expirations)"
  then have sel: "select_expiration strptime today expirations requested min_dte
      = auto_select strptime today expirations min_dte"
    by (cases requested) (auto simp: select_expiration_def)
  {
    fix i assume i: "i < length expirations"
      "meets_floor strptime today min_dte (expirations ! i)
         \<and> (\<forall>j<i. \<not> meets_floor strptime today min_dte (expirations ! j))"
    then have "find (meets_floor strptime today min_dte) expirations = Some (expirations ! i)"
      unfolding find_Some_iff by blast
    then show "select_expiration strptime today expirations requested min_dte
        = Inr (expirations ! i)"
      by (simp add: sel auto_select_def scan_expirations_find)
  }
  {
    assume "\<forall>e\<in>set expirations. \<not> meets_floor strptime today min_dte e"
    then have "find (meets_floor strptime today min_dte) expirations = None"
      unfolding find_None_iff by blast
    then show "select_expiration strptime today expirations requested min_dte
        = Inr (last expirations)"
      using assms by (simp add: sel auto_select_def scan_expirations_find)
  }
qed

theorem select_expiration_policy_witness:
  "[''2025-01-10'', ''2025-02-07''] \<noteq> []
   \<and> select_expiration sample_calendar 0 [''2025-01-10'', ''2025-02-07''] (Some ''2025-01-10'') 7
       = Inr ''2025-01-10''
   \<and> \<not> meets_floor sample_calendar 0 7 ''2025-01-10''
   \<and> meets_floor sample_calendar 0 7 ''2025-02-07''
   \<and> select_expiration sample_calendar 0 [''2025-01-10'', ''2025-02-07''] None 7
       = Inr ''2025-02-07''
   \<and> select_expiration sample_calendar 0 [''2025-01-10'', ''2025-02-07''] None 40
       = Inr ''2025-02-07''"
proof -
  let ?es = "[''2025-01-10'', ''2025-02-07'']"
  have ne: "?es \<noteq> []" by simp
  have m1: "\<not> meets_floor sample_calendar 0 7 ''2025-01-10''"
    by (simp add: meets_floor_def sample_calendar_def)
  have m2: "meets_floor sample_calendar 0 7 ''2025-02-07''"
    by (simp add: meets_floor_def sample_calendar_def)
  have m3: "\<forall>e\<in>set ?es. \<not> meets_floor sample_calendar 0 40 e"
    by (simp add: meets_floor_def sample_calendar_def)
  note A = select_expiration_policy[OF ne, of "Some ''2025-01-10''" sample_calendar 0 7]
  note B = select_expiration_policy[OF ne, of None sample_calendar 0 7]
  note C = select_expiration_policy[OF ne, of None sample_calendar 0 40]
  have a: "select_expiration sample_calendar 0 ?es (Some ''2025-01-10'') 7 = Inr ''2025-01-10''"
    using A by simp
  have "select_expiration sample_calendar 0 ?es None 7 = Inr (?es ! 1)"
  proof -
    have "\<forall>j<(1::nat). \<not> meets_floor sample_calendar 0 7 (?es ! j)" using m1 by simp
    moreover have "meets_floor sample_calendar 0 7 (?es ! 1)" using m2 by simp
    moreover have "(1::nat) < length ?es" by simp
    ultimately show ?thesis using B by blast
  qed
  then have b: "select_expiration sample_calendar 0 ?es None 7 = Inr ''2025-02-07''" by simp
  have "select_expiration sample_calendar 0 ?es None 40 = Inr (last ?es)"
    using C m3 by blast
  then have c: "select_expiration sample_calendar 0 ?es None 40 = Inr ''2025-02-07''" by simp
  from ne a m1 m2 b c show ?thesis by blast
qed

section \<open>Properties of the put/call ratio\<close>

text \<open>
  Claim C6. When either side's analysis is absent there is no ratio object at all, so
  neither ratio has a value. When both are present, the volume ratio is \<open>None\<close> if
  the calls' total volume is zero and total put volume over total call volume if it
  is positive (totals are sums of contract volumes, hence not negative); the
  open-interest ratio is decided in the same way by the calls' total open interest
  alone, independently of the volumes.
\<close>

theorem compute_pcr_ratios:
  "((calls = None \<or> puts = None) \<longrightarrow> compute_pcr calls puts = None)
   \<and> (\<forall>c p. calls = Some c \<and> puts = Some p \<longrightarrow>
         (\<exists>r. compute_pcr calls puts = Some r
            \<and> (total_volume c = 0 \<longrightarrow> pcr_volume r = None)
            \<and> (0 \<le> total_volume c \<and> total_volume c \<noteq> 0 \<longrightarrow>
                 pcr_volume r
                   = Some (real_of_int (total_volume p) / real_of_int (total_volume c)))
            \<and> (total_open_interest c = 0 \<longrightarrow> pcr_open_interest r = None)
            \<and> (0 \<le> total_open_interest c \<and> total_open_interest c \<noteq> 0 \<longrightarrow>
                 pcr_open_interest r
                   = Some (real_of_int (total_open_interest p)
                           / real_of_int (total_open_interest c)))))"
  by (auto simp: compute_pcr_def split: option.splits)

theorem compute_pcr_ratios_witness:
  "compute_pcr None (Some (bare_analysis 40 25 15000 30000 35)) = None
   \<and> compute_pcr (Some (bare_analysis 50 30 10000 50000 75)) None = None
   \<and> Option.bind (compute_pcr (Some (bare_analysis 50 30 0 50000 75))
                               (Some (bare_analysis 40 25 15000 30000 35))) pcr_volume = None
   \<and> Option.bind (compute_pcr (Some (bare_analysis 50 30 0 50000 75))
                               (Some (bare_analysis 40 25 15000 30000 35))) pcr_open_interest
       = Some (3/5)
   \<and> Option.bind (compute_pcr (Some (bare_analysis 50 30 10000 0 75))
                               (Some (bare_analysis 40 25 15000 30000 35))) pcr_volume
       = Some (3/2)
   \<and> Option.bind (compute_pcr (Some (bare_analysis 50 30 10000 0 75))
                               (Some (bare_analysis 40 25 15000 30000 35))) pcr_open_interest
       = None"
  using compute_pcr_ratios[of None "Some (bare_analysis 40 25 15000 30000 35)"]
    compute_pcr_ratios[of "Some (bare_analysis 50 30 10000 50000 75)" None]
    compute_pcr_ratios[of "Some (bare_analysis 50 30 0 50000 75)"
      "Some (bare_analysis 40 25 15000 30000 35)"]
    compute_pcr_ratios[of "Some (bare_analysis 50 30 10000 0 75)"
      "Some (bare_analysis 40 25 15000 30000 35)"]
  by (auto simp: bare_analysis_def)

section \<open>Properties of the vehicle selection\<close>



section \<open>Properties of the risk assessment\<close>


lemma keeps_refl: "keeps s s"
  by (simp add: keeps_def)


lemma keeps_warn: "keeps s (warn m s)"
  by (auto simp: keeps_def warn_def)

lemma keeps_opportunity: "keeps s (opportunity m s)"
  by (auto simp: keeps_def opportunity_def)

lemma keeps_assess_iv: "keeps s (assess_iv F calls puts s)"
  by (simp add: assess_iv_def Let_def keeps_refl keeps_warn keeps_opportunity split: option.splits)




















subsection \<open>The message of each check that fires\<close>
























subsection \<open>How the messages print their numbers\<close>




section \<open>Properties of the spread evaluation\<close>

lemma put_in_names:
  "sublist ''put'' ''bull_put_credit''" "\<not> sublist ''put'' ''bear_call_credit''"
  "sublist ''call'' ''bull_call''" "\<not> sublist ''call'' ''bear_put''"
  by (simp_all add: sublist_Cons_right)

text \<open>For a known spread type the result dict is built: no division is by zero.\<close>

lemma close_analysis_of_total:
  "\<exists>closing. close_analysis_of rnd stype contracts buy_leg sell_leg action entry = Inr closing"
  by (simp add: close_analysis_of_def pnl_percent_of_def py_div_def Let_def split: option.splits)

lemma rr_ratio_of_total: "\<exists>rr. rr_ratio_of profit loss = Inr rr"
  by (simp add: rr_ratio_of_def py_div_def)

lemma spread_report_total:
  assumes "chain_label stype = Inr lab"
  shows "\<exists>closing rr.
     close_analysis_of rnd stype contracts buy_leg sell_leg action entry = Inr closing
     \<and> analyze_spread_trade rnd stype buy_strike sell_strike contracts action entry
          buy_leg sell_leg
       = Inr \<lparr>r_spread_width =
                  rnd (spread_width
                    (spread_metrics stype buy_strike sell_strike contracts buy_leg sell_leg)) 2,
              r_is_credit = is_credit_spread stype,
              r_max_profit =
                  rnd (max_profit
                    (spread_metrics stype buy_strike sell_strike contracts buy_leg sell_leg)) 2,
              r_max_loss =
                  rnd \<bar>max_loss
                    (spread_metrics stype buy_strike sell_strike contracts buy_leg sell_leg)\<bar> 2,
              r_risk_reward_ratio = rnd rr 2,
              r_breakeven =
                  rnd (breakeven
                    (spread_metrics stype buy_strike sell_strike contracts buy_leg sell_leg)) 2,
              r_close_analysis = closing\<rparr>"
proof -
  obtain closing where c:
    "close_analysis_of rnd stype contracts buy_leg sell_leg action entry = Inr closing"
    using close_analysis_of_total by blast
  obtain rr where r:
    "rr_ratio_of
       (max_profit (spread_metrics stype buy_strike sell_strike contracts buy_leg sell_leg))
       (max_loss (spread_metrics stype buy_strike sell_strike contracts buy_leg sell_leg))
     = Inr rr"
    using rr_ratio_of_total by blast
  show ?thesis using assms c r by (auto simp: analyze_spread_trade_def Let_def)
qed

text \<open>
  Claim C1. With the short leg's bid and the long leg's ask present, the evaluation
  of a credit spread (\<open>bull_put_credit\<close>, \<open>bear_call_credit\<close>) computes
  net credit = sell.bid - buy.ask, max profit = credit * 100 * contracts,
  max loss = (width - credit) * 100 * contracts, and the breakeven
  sell\_strike - credit for the put spread, sell\_strike + credit for the call spread;
  that of a debit spread (\<open>bull_call\<close>, \<open>bear_put\<close>) computes
  net debit = buy.ask - sell.bid, max loss = debit * 100 * contracts,
  max profit = (width - debit) * 100 * contracts, and the breakeven
  buy\_strike + debit for the call spread, buy\_strike - debit for the put spread;
  the width is \<open>\<bar>sell_strike - buy_strike\<bar>\<close>. The result dict is built for these
  four types and carries the values through \<open>round(., 2)\<close>, the max loss as an
  absolute value.
\<close>

theorem spread_metrics_formulas:
  assumes "bid sell_leg = Some sb" "ask buy_leg = Some ba"
  shows "(stype = ''bull_put_credit'' \<or> stype = ''bear_call_credit'' \<longrightarrow>
      (\<exists>m r. spread_metrics stype buy_strike sell_strike contracts buy_leg sell_leg = m
         \<and> analyze_spread_trade rnd stype buy_strike sell_strike contracts action entry
              buy_leg sell_leg = Inr r
         \<and> spread_width m = \<bar>sell_strike - buy_strike\<bar>
         \<and> net_amount m = sb - ba
         \<and> max_profit m = (sb - ba) * 100 * real_of_int contracts
         \<and> max_loss m = (\<bar>sell_strike - buy_strike\<bar> - (sb - ba)) * 100 * real_of_int contracts
         \<and> (stype = ''bull_put_credit'' \<longrightarrow> breakeven m = sell_strike - (sb - ba))
         \<and> (stype = ''bear_call_credit'' \<longrightarrow> breakeven m = sell_strike + (sb - ba))
         \<and> r_is_credit r
         \<and> r_max_profit r = rnd (max_profit m) 2
         \<and> r_max_loss r = rnd \<bar>max_loss m\<bar> 2
         \<and> r_breakeven r = rnd (breakeven m) 2))
   \<and> (stype = ''bull_call'' \<or> stype = ''bear_put'' \<longrightarrow>
      (\<exists>m r. spread_metrics stype buy_strike sell_strike contracts buy_leg sell_leg = m
         \<and> analyze_spread_trade rnd stype buy_strike sell_strike contracts action entry
              buy_leg sell_leg = Inr r
         \<and> spread_width m = \<bar>sell_strike - buy_strike\<bar>
         \<and> net_amount m = ba - sb
         \<and> max_loss m = (ba - sb) * 100 * real_of_int contracts
         \<and> max_profit m = (\<bar>sell_strike - buy_strike\<bar> - (ba - sb)) * 100 * real_of_int contracts
         \<and> (stype = ''bull_call'' \<longrightarrow> breakeven m = buy_strike + (ba - sb))
         \<and> (stype = ''bear_put'' \<longrightarrow> breakeven m = buy_strike - (ba - sb))
         \<and> \<not> r_is_credit r
         \<and> r_max_profit r = rnd (max_profit m) 2
         \<and> r_max_loss r = rnd \<bar>max_loss m\<bar> 2
         \<and> r_breakeven r = rnd (breakeven m) 2))"
proof (intro conjI impI)
  assume "stype = ''bull_put_credit'' \<or> stype = ''bear_call_credit''"
  then show "\<exists>m r. spread_metrics stype buy_strike sell_strike contracts buy_leg sell_leg = m
         \<and> analyze_spread_trade rnd stype buy_strike sell_strike contracts action entry
              buy_leg sell_leg = Inr r
         \<and> spread_width m = \<bar>sell_strike - buy_strike\<bar>
         \<and> net_amount m = sb - ba
         \<and> max_profit m = (sb - ba) * 100 * real_of_int contracts
         \<and> max_loss m = (\<bar>sell_strike - buy_strike\<bar> - (sb - ba)) * 100 * real_of_int contracts
         \<and> (stype = ''bull_put_credit'' \<longrightarrow> breakeven m = sell_strike - (sb - ba))
         \<and> (stype = ''bear_call_credit'' \<longrightarrow> breakeven m = sell_strike + (sb - ba))
         \<and> r_is_credit r
         \<and> r_max_profit r = rnd (max_profit m) 2
         \<and> r_max_loss r = rnd \<bar>max_loss m\<bar> 2
         \<and> r_breakeven r = rnd (breakeven m) 2"
  proof
    assume st: "stype = ''bull_put_credit''"
    then have v: "chain_label stype = Inr ''puts''" by (simp add: chain_label_def)
    show ?thesis
      using st assms
        spread_report_total[OF v, where rnd = rnd and contracts = contracts
          and buy_leg = buy_leg and sell_leg = sell_leg and action = action and entry = entry
          and buy_strike = buy_strike and sell_strike = sell_strike]
      by (auto simp: spread_metrics_def is_credit_spread_def or0_def put_in_names Let_def)
  next
    assume st: "stype = ''bear_call_credit''"
    then have v: "chain_label stype = Inr ''calls''" by (simp add: chain_label_def)
    show ?thesis
      using st assms
        spread_report_total[OF v, where rnd = rnd and contracts = contracts
          and buy_leg = buy_leg and sell_leg = sell_leg and action = action and entry = entry
          and buy_strike = buy_strike and sell_strike = sell_strike]
      by (auto simp: spread_metrics_def is_credit_spread_def or0_def put_in_names Let_def)
  qed
next
  assume "stype = ''bull_call'' \<or> stype = ''bear_put''"
  then show "\<exists>m r. spread_metrics stype buy_strike sell_strike contracts buy_leg sell_leg = m
         \<and> analyze_spread_trade rnd stype buy_strike sell_strike contracts action entry
              buy_leg sell_leg = Inr r
         \<and> spread_width m = \<bar>sell_strike - buy_strike\<bar>
         \<and> net_amount m = ba - sb
         \<and> max_loss m = (ba - sb) * 100 * real_of_int contracts
         \<and> max_profit m = (\<bar>sell_strike - buy_strike\<bar> - (ba - sb)) * 100 * real_of_int contracts
         \<and> (stype = ''bull_call'' \<longrightarrow> breakeven m = buy_strike + (ba - sb))
         \<and> (stype = ''bear_put'' \<longrightarrow> breakeven m = buy_strike - (ba - sb))
         \<and> \<not> r_is_credit r
         \<and> r_max_profit r = rnd (max_profit m) 2
         \<and> r_max_loss r = rnd \<bar>max_loss m\<bar> 2
         \<and> r_breakeven r = rnd (breakeven m) 2"
  proof
    assume st: "stype = ''bull_call''"
    then have v: "chain_label stype = Inr ''calls''" by (simp add: chain_label_def)
    show ?thesis
      using st assms
        spread_report_total[OF v, where rnd = rnd and contracts = contracts
          and buy_leg = buy_leg and sell_leg = sell_leg and action = action and entry = entry
          and buy_strike = buy_strike and sell_strike = sell_strike]
      by (auto simp: spread_metrics_def is_credit_spread_def or0_def put_in_names Let_def)
  next
    assume st: "stype = ''bear_put''"
    then have v: "chain_label stype = Inr ''puts''" by (simp add: chain_label_def)
    show ?thesis
      using st assms
        spread_report_total[OF v, where rnd = rnd and contracts = contracts
          and buy_leg = buy_leg and sell_leg = sell_leg and action = action and entry = entry
          and buy_strike = buy_strike and sell_strike = sell_strike]
      by (auto simp: spread_metrics_def is_credit_spread_def or0_def put_in_names Let_def)
  qed
qed

theorem spread_metrics_formulas_witness:
  "bid short_leg = Some 2 \<and> ask long_leg = Some (80/100)
   \<and> net_amount (spread_metrics ''bull_put_credit'' 96 100 1 long_leg short_leg) = 120/100
   \<and> max_profit (spread_metrics ''bull_put_credit'' 96 100 1 long_leg short_leg) = 120
   \<and> max_loss (spread_metrics ''bull_put_credit'' 96 100 1 long_leg short_leg) = 280
   \<and> breakeven (spread_metrics ''bull_put_credit'' 96 100 1 long_leg short_leg) = 988/10
   \<and> breakeven (spread_metrics ''bear_call_credit'' 104 100 1 long_leg short_leg) = 1012/10
   \<and> bid long_leg = Some (70/100) \<and> ask short_leg = Some (210/100)
   \<and> net_amount (spread_metrics ''bull_call'' 100 104 1 short_leg long_leg) = 140/100
   \<and> max_loss (spread_metrics ''bull_call'' 100 104 1 short_leg long_leg) = 140
   \<and> max_profit (spread_metrics ''bull_call'' 100 104 1 short_leg long_leg) = 260
   \<and> breakeven (spread_metrics ''bull_call'' 100 104 1 short_leg long_leg) = 1014/10
   \<and> breakeven (spread_metrics ''bear_put'' 104 100 1 short_leg long_leg) = 1026/10"
proof -
  have q: "bid short_leg = Some 2" "ask long_leg = Some (80/100)"
    "bid long_leg = Some (70/100)" "ask short_leg = Some (210/100)"
    by (simp_all add: long_leg_def short_leg_def)
  note C = spread_metrics_formulas[OF q(1) q(2), where action = "''open''" and entry = None
      and contracts = 1 and rnd = py_round]
  note D = spread_metrics_formulas[OF q(3) q(4), where action = "''open''" and entry = None
      and contracts = 1 and rnd = py_round]
  have 1: "net_amount (spread_metrics ''bull_put_credit'' 96 100 1 long_leg short_leg) = 120/100
     \<and> max_profit (spread_metrics ''bull_put_credit'' 96 100 1 long_leg short_leg) = 120
     \<and> max_loss (spread_metrics ''bull_put_credit'' 96 100 1 long_leg short_leg) = 280
     \<and> breakeven (spread_metrics ''bull_put_credit'' 96 100 1 long_leg short_leg) = 988/10"
    using C[where stype = "''bull_put_credit''" and buy_strike = 96 and sell_strike = 100]
    by auto
  have 2: "breakeven (spread_metrics ''bear_call_credit'' 104 100 1 long_leg short_leg) = 1012/10"
    using C[where stype = "''bear_call_credit''" and buy_strike = 104 and sell_strike = 100]
    by auto
  have 3: "net_amount (spread_metrics ''bull_call'' 100 104 1 short_leg long_leg) = 140/100
     \<and> max_loss (spread_metrics ''bull_call'' 100 104 1 short_leg long_leg) = 140
     \<and> max_profit (spread_metrics ''bull_call'' 100 104 1 short_leg long_leg) = 260
     \<and> breakeven (spread_metrics ''bull_call'' 100 104 1 short_leg long_leg) = 1014/10"
    using D[where stype = "''bull_call''" and buy_strike = 100 and sell_strike = 104]
    by auto
  have 4: "breakeven (spread_metrics ''bear_put'' 104 100 1 short_leg long_leg) = 1026/10"
    using D[where stype = "''bear_put''" and buy_strike = 104 and sell_strike = 100]
    by auto
  from q 1 2 3 4 show ?thesis by (simp only: simp_thms)
qed




end
